theory Spec2Isabelle
  imports Main
begin

section \<open>Python values, types and exceptions\<close>

text \<open>
  The values the library handles.  Containers are kept as the list of their elements in
  iteration order; a dict is the list of its items in insertion order.  An object is the
  name of its class and its instance attributes.  A \<open>str\<close> is the list of its code
  points, here the code points below 256.
\<close>

datatype pytype =
    T_NoneType | T_bool | T_int | T_str
  | T_list | T_tuple | T_set | T_frozenset | T_dict
  | T_Attribute
  | T_class string

datatype pyval =
    PNone
  | PBool bool
  | PInt int
  | PStr string
  | PList "pyval list"
  | PTuple "pyval list"
  | PSet "pyval list"
  | PFrozenset "pyval list"
  | PDict "(pyval \<times> pyval) list"
  | PObj string "(string \<times> pyval) list"

text \<open>\<open>val.__class__\<close>, also written \<open>type(val)\<close>.\<close>

fun py_class :: "pyval \<Rightarrow> pytype" where
  "py_class PNone = T_NoneType"
| "py_class (PBool _) = T_bool"
| "py_class (PInt _) = T_int"
| "py_class (PStr _) = T_str"
| "py_class (PList _) = T_list"
| "py_class (PTuple _) = T_tuple"
| "py_class (PSet _) = T_set"
| "py_class (PFrozenset _) = T_frozenset"
| "py_class (PDict _) = T_dict"
| "py_class (PObj cn _) = T_class cn"

text \<open>
  An exception is its class, the text of its message as the source writes it (the
  f-string with its placeholders), and the values formatted into the placeholders.
\<close>

datatype exn_class =
    TypeError | ValueError | NameError | AttributeError
  | NotAnAttrsClassError | FrozenAttributeError
  | UserError string

datatype exn = Raise exn_class string "pyval list"

section \<open>Attribute: the field metadata\<close>

text \<open>
  Modelled from the spec: the class \<open>Attribute\<close> of \<open>attr._make\<close> (the FieldSpec of the
  specification), which is not among the sources.  The record has the slots the sources
  read: \<open>name\<close>, \<open>init\<close>, \<open>validator\<close>, \<open>converter\<close> and \<open>type\<close>, the declared type of
  the field; and the slot \<open>alias\<close> of the specification's FieldSpec, which
  \<open>_next_gen.field\<close> passes on.  A validator or converter is a Python callable: the
  attribute holds a reference to it, and the callable itself is found in a table of
  callables (see the setters).
\<close>

record Attribute =
  name :: string
  declared_type :: "pytype option"
  init :: bool
  validator :: "nat option"
  converter :: "nat option"
  alias' :: "string option"

text \<open>\<open>attribute.__class__\<close>: every field token is an instance of \<open>Attribute\<close>.\<close>

definition attribute_class :: "Attribute \<Rightarrow> pytype" where
  "attribute_class attribute = T_Attribute"

section \<open>filters.py\<close>

text \<open>A selector passed to \<open>include\<close> or \<open>exclude\<close>: a type, a field name, or an attribute.\<close>

datatype selector = SType pytype | SName string | SAttr Attribute

text \<open>\<open>isinstance(x, type)\<close> on a selector.\<close>

fun isinstance_type :: "selector \<Rightarrow> bool" where
  "isinstance_type (SType _) = True"
| "isinstance_type _ = False"

text \<open>
  \<open>_split_what(what)\<close>: the frozenset of the classes among \<open>what\<close>, and the frozenset of
  everything else.
\<close>

definition split_what :: "selector list \<Rightarrow> selector set \<times> selector set" where
  "split_what what =
     (set (filter isinstance_type what),
      set (filter (\<lambda>attr. \<not> isinstance_type attr) what))"

text \<open>
  The closure \<open>include_filter\<close>, with the two frozensets it closes over as its first
  argument.
\<close>

definition include_filter :: "selector set \<times> selector set \<Rightarrow> Attribute \<Rightarrow> 'v \<Rightarrow> bool" where
  "include_filter env attribute value =
     (case env of (classes, attributes) \<Rightarrow>
        SName (name attribute) \<in> attributes
        \<or> SType (attribute_class attribute) \<in> classes
        \<or> SAttr attribute \<in> attributes)"

definition include' :: "selector list \<Rightarrow> Attribute \<Rightarrow> 'v \<Rightarrow> bool" where
  "include' what = include_filter (split_what what)"

definition exclude_filter :: "selector set \<times> selector set \<Rightarrow> Attribute \<Rightarrow> 'v \<Rightarrow> bool" where
  "exclude_filter env attribute value =
     (case env of (classes, attributes) \<Rightarrow>
        \<not> (SName (name attribute) \<in> attributes
           \<or> SType (attribute_class attribute) \<in> classes
           \<or> SAttr attribute \<in> attributes))"

definition exclude' :: "selector list \<Rightarrow> Attribute \<Rightarrow> 'v \<Rightarrow> bool" where
  "exclude' what = exclude_filter (split_what what)"

section \<open>converters.py: to_bool\<close>

text \<open>\<open>str.lower()\<close> on one code point below 256.\<close>

definition lower_char :: "char \<Rightarrow> char" where
  "lower_char c =
     (let n = (of_char c :: nat)
      in if (65 \<le> n \<and> n \<le> 90) \<or> (192 \<le> n \<and> n \<le> 222 \<and> n \<noteq> 215)
         then char_of (n + 32) else c)"

definition str_lower :: "string \<Rightarrow> string" where
  "str_lower s = map lower_char s"

text \<open>\<open>str(i)\<close> for an integer: its decimal digits, with a minus sign when negative.\<close>

definition digit_char :: "nat \<Rightarrow> char" where
  "digit_char d = char_of (48 + d)"

fun digits :: "nat \<Rightarrow> string" where
  "digits n = (if n < 10 then [digit_char n] else digits (n div 10) @ [digit_char (n mod 10)])"

declare digits.simps [simp del]

definition str_of_int :: "int \<Rightarrow> string" where
  "str_of_int i = (if i < 0 then CHR ''-'' # digits (nat (- i)) else digits (nat i))"

text \<open>\<open>isinstance(val, (str, int))\<close>; a bool is an int in Python.\<close>

fun isinstance_str_int :: "pyval \<Rightarrow> bool" where
  "isinstance_str_int (PStr _) = True"
| "isinstance_str_int (PInt _) = True"
| "isinstance_str_int (PBool _) = True"
| "isinstance_str_int _ = False"

text \<open>\<open>str(val)\<close> where \<open>to_bool\<close> calls it: on a str or an int that is not a bool.\<close>

fun py_str :: "pyval \<Rightarrow> string" where
  "py_str (PStr s) = s"
| "py_str (PInt i) = str_of_int i"
| "py_str (PBool b) = (if b then ''True'' else ''False'')"
| "py_str _ = []"

definition truthy_tokens :: "string list" where
  "truthy_tokens = [''true'', ''t'', ''yes'', ''y'', ''on'', ''1'']"

definition falsy_tokens :: "string list" where
  "falsy_tokens = [''false'', ''f'', ''no'', ''n'', ''off'', ''0'']"

text \<open>
  \<open>to_bool\<close>.  The source rebinds \<open>val\<close> to \<open>str(val).lower()\<close> before it looks the token
  up, so the message of the ValueError formats the rebound value.
\<close>

definition to_bool :: "pyval \<Rightarrow> exn + pyval" where
  "to_bool val =
     (case val of
        PBool b \<Rightarrow> Inr val
      | _ \<Rightarrow>
        (if isinstance_str_int val then
           (let val' = str_lower (py_str val)
            in if val' \<in> set truthy_tokens then Inr (PBool True)
               else if val' \<in> set falsy_tokens then Inr (PBool False)
               else Inl (Raise ValueError ''Cannot convert {val!r} to bool'' [PStr val']))
         else Inl (Raise ValueError ''Cannot convert {val!r} to bool'' [val])))"

text \<open>
  The specification's reading of a textual token matched case-insensitively: the two
  texts are equal once both are folded to lower case.
\<close>

definition eq_ignoring_case :: "string \<Rightarrow> string \<Rightarrow> bool" where
  "eq_ignoring_case s t = (str_lower s = str_lower t)"

text \<open>The inputs the specification lists as truthy and as falsy.\<close>

fun is_truthy :: "pyval \<Rightarrow> bool" where
  "is_truthy (PBool b) = b"
| "is_truthy (PInt i) = (i = 1)"
| "is_truthy (PStr s) = (\<exists>t \<in> set truthy_tokens. eq_ignoring_case s t)"
| "is_truthy _ = False"

fun is_falsy :: "pyval \<Rightarrow> bool" where
  "is_falsy (PBool b) = (\<not> b)"
| "is_falsy (PInt i) = (i = 0)"
| "is_falsy (PStr s) = (\<exists>t \<in> set falsy_tokens. eq_ignoring_case s t)"
| "is_falsy _ = False"

text \<open>
  The value that the message of the ValueError formats: the input itself, except that a
  text is shown in lower case and an integer as its decimal text.
\<close>

definition named_in_error :: "pyval \<Rightarrow> pyval" where
  "named_in_error val =
     (case val of PStr s \<Rightarrow> PStr (str_lower s) | PInt i \<Rightarrow> PStr (str_of_int i) | _ \<Rightarrow> val)"

section \<open>_cmp.py: cmp_using\<close>

text \<open>
  A comparison method returns a bool or the constant \<open>NotImplemented\<close>.  An instance of
  a class built by \<open>cmp_using\<close> knows its class and holds the attribute \<open>value\<close> that
  \<open>__init__\<close> stores.  A class is identified by the number it received when
  \<open>type(class_name, (), body)\<close> created it: every call of \<open>cmp_using\<close> creates a new class.
\<close>

datatype cmp_result = NotImplemented | Returned bool

record 'v wrapper =
  wrapper_class :: nat
  value' :: 'v

type_synonym 'v cmp_method = "'v wrapper \<Rightarrow> 'v wrapper \<Rightarrow> exn + cmp_result"

record 'v comparable =
  class_id :: nat
  class_name :: string
  init_method :: "'v \<Rightarrow> 'v wrapper"
  body :: "string \<rightharpoonup> 'v cmp_method"

text \<open>
  \<open>_make_method(name, op)\<close> inside \<open>cmp_using\<close>; \<open>require_same_type\<close> is the variable it
  closes over.  The predicate \<open>op\<close> is the caller's; it returns a bool or raises.
\<close>

definition make_method ::
  "bool \<Rightarrow> string \<Rightarrow> ('v \<Rightarrow> 'v \<Rightarrow> exn + bool) \<Rightarrow> 'v cmp_method" where
  "make_method require_same_type nm op self other =
     (if require_same_type \<and> wrapper_class self \<noteq> wrapper_class other
      then Inr NotImplemented
      else (case op (value' self) (value' other) of
              Inl e \<Rightarrow> Inl e
            | Inr b \<Rightarrow> Inr (Returned b)))"

text \<open>\<open>_make_init()\<close> inside \<open>cmp_using\<close>: \<open>__init__\<close> stores the value on the new instance.\<close>

definition make_init :: "nat \<Rightarrow> 'v \<Rightarrow> 'v wrapper" where
  "make_init cls v = \<lparr>wrapper_class = cls, value' = v\<rparr>"

text \<open>
  Modelled from the spec: \<open>_make_ne\<close> of \<open>attr._make\<close>, which is not among the sources.
  The specification: the inequality operator, when \<open>eq\<close> is supplied, is derived as the
  logical negation of equality and is subject to the same incomparability
  short-circuit.  Its argument is the \<open>__eq__\<close> of the class.
\<close>

definition make_ne :: "'v cmp_method \<Rightarrow> 'v cmp_method" where
  "make_ne eq_method self other =
     (case eq_method self other of
        Inl e \<Rightarrow> Inl e
      | Inr NotImplemented \<Rightarrow> Inr NotImplemented
      | Inr (Returned b) \<Rightarrow> Inr (Returned (\<not> b)))"

text \<open>
  \<open>cmp_using\<close>.  The last argument is the number of classes created so far; the result
  is the new class with the updated count.
\<close>

definition cmp_using ::
  "('v \<Rightarrow> 'v \<Rightarrow> exn + bool) option \<Rightarrow> ('v \<Rightarrow> 'v \<Rightarrow> exn + bool) option \<Rightarrow>
   ('v \<Rightarrow> 'v \<Rightarrow> exn + bool) option \<Rightarrow> ('v \<Rightarrow> 'v \<Rightarrow> exn + bool) option \<Rightarrow>
   ('v \<Rightarrow> 'v \<Rightarrow> exn + bool) option \<Rightarrow> bool \<Rightarrow> string \<Rightarrow> nat \<Rightarrow> 'v comparable \<times> nat" where
  "cmp_using eq lt le gt ge require_same_type cname n =
     (let b0 = Map.empty;
          b1 = (case eq of None \<Rightarrow> b0
                | Some op \<Rightarrow>
                    b0(''__eq__'' \<mapsto> make_method require_same_type ''__eq__'' op,
                       ''__ne__'' \<mapsto> make_ne (make_method require_same_type ''__eq__'' op)));
          b2 = (case lt of None \<Rightarrow> b1
                | Some op \<Rightarrow> b1(''__lt__'' \<mapsto> make_method require_same_type ''__lt__'' op));
          b3 = (case le of None \<Rightarrow> b2
                | Some op \<Rightarrow> b2(''__le__'' \<mapsto> make_method require_same_type ''__le__'' op));
          b4 = (case gt of None \<Rightarrow> b3
                | Some op \<Rightarrow> b3(''__gt__'' \<mapsto> make_method require_same_type ''__gt__'' op));
          b5 = (case ge of None \<Rightarrow> b4
                | Some op \<Rightarrow> b4(''__ge__'' \<mapsto> make_method require_same_type ''__ge__'' op))
      in (\<lparr>class_id = n, class_name = cname, init_method = make_init n, body = b5\<rparr>, Suc n))"

text \<open>What a method is to return on operands of one type: the predicate's own outcome.\<close>

definition outcome_of :: "exn + bool \<Rightarrow> exn + cmp_result" where
  "outcome_of r = (case r of Inl e \<Rightarrow> Inl e | Inr b \<Rightarrow> Inr (Returned b))"

definition negated_outcome_of :: "exn + bool \<Rightarrow> exn + cmp_result" where
  "negated_outcome_of r = (case r of Inl e \<Rightarrow> Inl e | Inr b \<Rightarrow> Inr (Returned (\<not> b)))"

text \<open>The predicate a method name is wired to.\<close>

definition wired ::
  "('v \<Rightarrow> 'v \<Rightarrow> exn + bool) option \<Rightarrow> ('v \<Rightarrow> 'v \<Rightarrow> exn + bool) option \<Rightarrow>
   ('v \<Rightarrow> 'v \<Rightarrow> exn + bool) option \<Rightarrow> ('v \<Rightarrow> 'v \<Rightarrow> exn + bool) option \<Rightarrow>
   ('v \<Rightarrow> 'v \<Rightarrow> exn + bool) option \<Rightarrow> string \<Rightarrow> ('v \<Rightarrow> 'v \<Rightarrow> exn + bool) option" where
  "wired eq lt le gt ge m =
     (if m = ''__eq__'' then eq else if m = ''__lt__'' then lt else if m = ''__le__'' then le
      else if m = ''__gt__'' then gt else if m = ''__ge__'' then ge else None)"

text \<open>Two predicates on integers, for a worked comparison.\<close>

definition int_eq :: "int \<Rightarrow> int \<Rightarrow> exn + bool" where
  "int_eq x y = Inr (x = y)"

definition int_lt :: "int \<Rightarrow> int \<Rightarrow> exn + bool" where
  "int_lt x y = Inr (x < y)"

section \<open>setters.py\<close>

text \<open>
  A validator or a converter is the caller's code: it may raise, and it may act on the
  world outside the library.  The world is a state \<open>'s\<close> that every call takes and
  returns.  The table of callables gives the callable behind each reference an
  attribute holds.
\<close>

type_synonym 's setter = "pyval \<Rightarrow> Attribute \<Rightarrow> pyval \<Rightarrow> 's \<Rightarrow> (exn + pyval) \<times> 's"

record 's callables =
  validators :: "nat \<Rightarrow> pyval \<Rightarrow> Attribute \<Rightarrow> pyval \<Rightarrow> 's \<Rightarrow> (exn + unit) \<times> 's"
  converters :: "nat \<Rightarrow> pyval \<Rightarrow> 's \<Rightarrow> (exn + pyval) \<times> 's"

text \<open>The closure \<open>pipe_setter\<close>, with the tuple \<open>setters\<close> it closes over.\<close>

fun pipe_setter :: "'s setter list \<Rightarrow> 's setter" where
  "pipe_setter [] instance attribute value s = (Inr value, s)"
| "pipe_setter (setter # setters) instance attribute value s =
     (case setter instance attribute value s of
        (Inl e, s') \<Rightarrow> (Inl e, s')
      | (Inr value2, s') \<Rightarrow> pipe_setter setters instance attribute value2 s')"

definition pipe :: "'s setter list \<Rightarrow> 's setter" where
  "pipe setters = pipe_setter setters"

definition frozen :: "'s setter" where
  "frozen = (\<lambda>_ _ _ s.
     (Inl (Raise FrozenAttributeError (''Can'' @ [CHR 0x27] @ ''t set attribute: frozen'') []), s))"

definition validate :: "'s callables \<Rightarrow> 's setter" where
  "validate tbl instance attrib new_value s =
     (case validator attrib of
        None \<Rightarrow> (Inr new_value, s)
      | Some v \<Rightarrow>
          (case validators tbl v instance attrib new_value s of
             (Inl e, s') \<Rightarrow> (Inl e, s')
           | (Inr _, s') \<Rightarrow> (Inr new_value, s')))"

definition convert :: "'s callables \<Rightarrow> 's setter" where
  "convert tbl instance attrib new_value s =
     (case converter attrib of
        None \<Rightarrow> (Inr new_value, s)
      | Some c \<Rightarrow> converters tbl c new_value s)"

text \<open>
  A worked field: its validator rejects None, its converter is \<open>to_bool\<close>; the world is
  the list of the callables that have run.
\<close>

definition not_none ::
  "pyval \<Rightarrow> Attribute \<Rightarrow> pyval \<Rightarrow> string list \<Rightarrow> (exn + unit) \<times> string list" where
  "not_none inst attrib v log =
     (if v = PNone then Inl (Raise (UserError ''ValidationError'') ''must not be None'' [v])
      else Inr (), log @ [''validator''])"

definition to_bool_logged :: "pyval \<Rightarrow> string list \<Rightarrow> (exn + pyval) \<times> string list" where
  "to_bool_logged v log = (to_bool v, log @ [''converter''])"

definition demo_callables :: "string list callables" where
  "demo_callables = \<lparr>validators = (\<lambda>_. not_none), converters = (\<lambda>_. to_bool_logged)\<rparr>"

definition demo_field :: Attribute where
  "demo_field = \<lparr>name = ''flag'', declared_type = Some T_bool, init = True,
                 validator = Some 0, converter = Some 0, alias' = None\<rparr>"

section \<open>_funcs.py\<close>

subsection \<open>Classes, instances and dicts\<close>

text \<open>
  Modelled from the spec: what the Field Registry (\<open>attr._make\<close>, not among the sources)
  provides for each class, taken as a parameter.  It gives the \<open>__attrs_attrs__\<close> of a
  class, when it has one; what calling the class with keyword arguments returns (the
  initializer generated for it); and whether its instances are hashable.  A class is
  named by a string; the built-in types have no \<open>__attrs_attrs__\<close>.
\<close>

record registry =
  attrs_attrs :: "string \<rightharpoonup> Attribute list"
  construct :: "string \<Rightarrow> (string \<times> pyval) list \<Rightarrow> exn + pyval"
  hashable_class :: "string \<Rightarrow> bool"

fun type_name :: "pytype \<Rightarrow> string" where
  "type_name T_NoneType = ''NoneType''"
| "type_name T_bool = ''bool''"
| "type_name T_int = ''int''"
| "type_name T_str = ''str''"
| "type_name T_list = ''list''"
| "type_name T_tuple = ''tuple''"
| "type_name T_set = ''set''"
| "type_name T_frozenset = ''frozenset''"
| "type_name T_dict = ''dict''"
| "type_name T_Attribute = ''Attribute''"
| "type_name (T_class cn) = cn"

text \<open>
  \<open>has(cls)\<close>: \<open>hasattr(cls, "__attrs_attrs__")\<close>.  The argument is a class wherever the
  source calls \<open>has\<close> (it passes \<open>x.__class__\<close>), so the TypeError for an argument that
  is not a class cannot arise.
\<close>

definition has :: "registry \<Rightarrow> pytype \<Rightarrow> bool" where
  "has reg cls = (case cls of T_class cn \<Rightarrow> attrs_attrs reg cn \<noteq> None | _ \<Rightarrow> False)"

text \<open>
  Modelled from the spec: \<open>fields\<close> of \<open>attr._make\<close>, which is not among the sources.
  The specification: \<open>fields(type)\<close> is the ordered sequence of the type's fields, and
  fails with the not-a-record-type error if the type lacks field metadata.
\<close>

definition fields :: "registry \<Rightarrow> pytype \<Rightarrow> exn + Attribute list" where
  "fields reg cls =
     (case (case cls of T_class cn \<Rightarrow> attrs_attrs reg cn | _ \<Rightarrow> None) of
        Some attrs \<Rightarrow> Inr attrs
      | None \<Rightarrow>
          Inl (Raise NotAnAttrsClassError ''{cls!r} is not an attrs-decorated class.''
                 [PStr (type_name cls)]))"

text \<open>\<open>getattr(inst, name)\<close> on the instance attributes.\<close>

definition getattr :: "pyval \<Rightarrow> string \<Rightarrow> exn + pyval" where
  "getattr inst nm =
     (case (case inst of PObj cn attrs \<Rightarrow> map_of attrs nm | _ \<Rightarrow> None) of
        Some v \<Rightarrow> Inr v
      | None \<Rightarrow>
          Inl (Raise AttributeError ''{!r} object has no attribute {!r}''
                 [PStr (type_name (py_class inst)), PStr nm]))"

definition hasattr :: "pyval \<Rightarrow> string \<Rightarrow> bool" where
  "hasattr inst nm = (case getattr inst nm of Inr _ \<Rightarrow> True | Inl _ \<Rightarrow> False)"

text \<open>
  The names bound in the module \<open>_funcs\<close>: its imports and its definitions.  Reading any
  other name that is not a built-in raises NameError.
\<close>

definition funcs_module_names :: "string list" where
  "funcs_module_names =
     [''copy'', ''PY_3_9_PLUS'', ''get_generic_base'', ''_OBJ_SETATTR'', ''NOTHING'', ''fields'',
      ''AttrsAttributeNotFoundError'',
      ''asdict'', ''_asdict_anything'', ''astuple'', ''has'', ''assoc'', ''evolve'',
      ''resolve_types'']"

definition name_error :: "string \<Rightarrow> exn" where
  "name_error nm = Raise NameError ''name {!r} is not defined'' [PStr nm]"

definition load_global :: "string \<Rightarrow> exn + unit" where
  "load_global nm = (if nm \<in> set funcs_module_names then Inr () else Inl (name_error nm))"

text \<open>
  A dict as the list of its items in insertion order, with distinct keys: \<open>d[k] = v\<close>
  replaces the value of a key in place or appends a new item; \<open>d.pop(k, default)\<close> removes
  the key and returns its value, or returns the default.
\<close>

definition dict_setitem :: "('k \<times> 'v) list \<Rightarrow> 'k \<Rightarrow> 'v \<Rightarrow> ('k \<times> 'v) list" where
  "dict_setitem d k v =
     (if k \<in> fst ` set d then map (\<lambda>(k', v'). if k' = k then (k', v) else (k', v')) d
      else d @ [(k, v)])"

definition dict_pop :: "('k \<times> 'v) list \<Rightarrow> 'k \<Rightarrow> 'v \<Rightarrow> 'v \<times> ('k \<times> 'v) list" where
  "dict_pop d k dflt =
     (case map_of d k of
        Some v \<Rightarrow> (v, filter (\<lambda>(k', v'). k' \<noteq> k) d)
      | None \<Rightarrow> (dflt, d))"

subsection \<open>evolve\<close>

fun is_AttributeError :: "exn \<Rightarrow> bool" where
  "is_AttributeError (Raise c _ _) = (c = AttributeError)"

text \<open>
  The loop of \<open>evolve\<close> over the fields, on the two dicts \<open>new_values\<close> and \<open>changes\<close>.
  The default \<open>getattr(inst, attr.name)\<close> is evaluated before \<open>pop\<close> is called.
\<close>

fun evolve_loop ::
  "pyval \<Rightarrow> Attribute list \<Rightarrow> (string \<times> pyval) list \<Rightarrow> (string \<times> pyval) list \<Rightarrow>
   exn + (string \<times> pyval) list \<times> (string \<times> pyval) list" where
  "evolve_loop inst [] new_values changes = Inr (new_values, changes)"
| "evolve_loop inst (attr # attrs) new_values changes =
     (if init attr then
        (case getattr inst (name attr) of
           Inl e \<Rightarrow>
             (if is_AttributeError e then
                Inl (Raise TypeError
                       (''Attribute {attr.name} doesn'' @ [CHR 0x27]
                          @ ''t exist or is not initializable.'')
                       [PStr (name attr)])
              else Inl e)
         | Inr dflt \<Rightarrow>
             (case dict_pop changes (name attr) dflt of
                (v, changes') \<Rightarrow>
                  evolve_loop inst attrs (dict_setitem new_values (name attr) v) changes'))
      else evolve_loop inst attrs new_values changes)"

text \<open>
  \<open>evolve(*args, **changes)\<close>.  The name \<open>NotAnAttrsClassError\<close> is read in the module's
  globals before the exception can be built.
\<close>

definition evolve :: "registry \<Rightarrow> pyval list \<Rightarrow> (string \<times> pyval) list \<Rightarrow> exn + pyval" where
  "evolve reg args changes =
     (case args of
        [] \<Rightarrow>
          Inl (Raise TypeError
                 (''evolve() missing 1 required positional argument: '' @ [CHR 0x27] @ ''inst''
                    @ [CHR 0x27]) [])
      | inst # _ \<Rightarrow>
          (if \<not> has reg (py_class inst) then
             (case load_global ''NotAnAttrsClassError'' of
                Inl e \<Rightarrow> Inl e
              | Inr _ \<Rightarrow>
                  Inl (Raise NotAnAttrsClassError
                         ''{inst.__class__.__name__} is not an attrs-decorated class.''
                         [PStr (type_name (py_class inst))]))
           else
             (case fields reg (py_class inst) of
                Inl e \<Rightarrow> Inl e
              | Inr attrs \<Rightarrow>
                  (case evolve_loop inst attrs [] changes of
                     Inl e \<Rightarrow> Inl e
                   | Inr (new_values, changes') \<Rightarrow>
                       (case changes' of
                          (k, _) # _ \<Rightarrow>
                            Inl (Raise TypeError
                                   ''got an unexpected keyword argument: {next(iter(changes))!r}''
                                   [PStr k])
                        | [] \<Rightarrow> construct reg (type_name (py_class inst)) new_values)))))"

text \<open>
  The keyword arguments the specification describes: every init-eligible field, in
  declared order, bound to the supplied value when the change set names it and to the
  source instance's value otherwise.
\<close>

definition merged_value :: "pyval \<Rightarrow> (string \<times> pyval) list \<Rightarrow> string \<Rightarrow> pyval" where
  "merged_value inst changes nm =
     (case map_of changes nm of
        Some v \<Rightarrow> v
      | None \<Rightarrow> (case getattr inst nm of Inr v \<Rightarrow> v | Inl _ \<Rightarrow> PNone))"

definition merged_arguments ::
  "pyval \<Rightarrow> Attribute list \<Rightarrow> (string \<times> pyval) list \<Rightarrow> (string \<times> pyval) list" where
  "merged_arguments inst attrs changes =
     map (\<lambda>a. (name a, merged_value inst changes (name a))) (filter init attrs)"

text \<open>The keys of the change set that name no init-eligible field, in the caller's order.\<close>

definition unexpected_keys :: "Attribute list \<Rightarrow> (string \<times> pyval) list \<Rightarrow> string list" where
  "unexpected_keys attrs changes =
     filter (\<lambda>k. k \<notin> name ` set (filter init attrs)) (map fst changes)"

text \<open>A record instance: an instance of a class with fields that has a value for each.\<close>

definition record_instance :: "registry \<Rightarrow> pyval \<Rightarrow> Attribute list \<Rightarrow> bool" where
  "record_instance reg inst attrs \<longleftrightarrow>
     fields reg (py_class inst) = Inr attrs \<and> distinct (map name attrs)
     \<and> (\<forall>a \<in> set attrs. hasattr inst (name a))"

text \<open>
  Modelled from the spec: the keyword under which the generated initializer takes a
  field, its alias when it has one and its name otherwise.  The initializer itself is
  generated by \<open>attr._make\<close>, which is not among the sources.
\<close>

definition init_keyword :: "Attribute \<Rightarrow> string" where
  "init_keyword a = (case alias' a of None \<Rightarrow> name a | Some k \<Rightarrow> k)"

text \<open>The initializer takes every init-eligible field under the field's own name.\<close>

definition keywords_are_names :: "Attribute list \<Rightarrow> bool" where
  "keywords_are_names attrs \<longleftrightarrow> (\<forall>a \<in> set attrs. init a \<longrightarrow> init_keyword a = name a)"

text \<open>
  An initializer that stores its arguments as given: called with a value for each
  init-eligible field, under the field's keyword and in declared order, it returns an
  instance of the class that holds each value under the field's name.  An initializer
  with a converter or with a validator that rejects some value does not.
\<close>

definition stores_arguments :: "registry \<Rightarrow> string \<Rightarrow> Attribute list \<Rightarrow> bool" where
  "stores_arguments reg cn attrs \<longleftrightarrow>
     (\<forall>vs. length vs = length (filter init attrs) \<longrightarrow>
        (\<exists>new. construct reg cn (zip (map init_keyword (filter init attrs)) vs) = Inr new
           \<and> py_class new = T_class cn
           \<and> (\<forall>(a, v) \<in> set (zip (filter init attrs) vs). getattr new (name a) = Inr v)))"

text \<open>
  Modelled from the spec: the initializer that the Field Registry generates for a record
  type.  It takes each init-eligible field under its keyword and refuses any other
  keyword; it reruns the converter of the field, when it has one, and stores the result
  under the field's name; a field that is not init-eligible receives its default, None
  in the classes below.  The table gives the converter behind each reference.
\<close>

fun init_values ::
  "(nat \<Rightarrow> pyval \<Rightarrow> exn + pyval) \<Rightarrow> Attribute list \<Rightarrow> (string \<times> pyval) list \<Rightarrow>
   exn + (string \<times> pyval) list" where
  "init_values convs [] kw = Inr []"
| "init_values convs (a # attrs) kw =
     (if init a then
        (case map_of kw (init_keyword a) of
           None \<Rightarrow>
             Inl (Raise TypeError ''__init__() missing 1 required argument: {!r}''
                    [PStr (init_keyword a)])
         | Some v \<Rightarrow>
             (case (case converter a of None \<Rightarrow> Inr v | Some c \<Rightarrow> convs c v) of
                Inl e \<Rightarrow> Inl e
              | Inr v' \<Rightarrow>
                  (case init_values convs attrs kw of
                     Inl e \<Rightarrow> Inl e
                   | Inr rest \<Rightarrow> Inr ((name a, v') # rest))))
      else
        (case init_values convs attrs kw of
           Inl e \<Rightarrow> Inl e
         | Inr rest \<Rightarrow> Inr ((name a, PNone) # rest)))"

definition generated_init ::
  "(nat \<Rightarrow> pyval \<Rightarrow> exn + pyval) \<Rightarrow> Attribute list \<Rightarrow> string \<Rightarrow> (string \<times> pyval) list \<Rightarrow>
   exn + pyval" where
  "generated_init convs attrs cn kw =
     (case filter (\<lambda>k. k \<notin> init_keyword ` set (filter init attrs)) (map fst kw) of
        k # _ \<Rightarrow>
          Inl (Raise TypeError ''__init__() got an unexpected keyword argument {!r}'' [PStr k])
      | [] \<Rightarrow>
          (case init_values convs attrs kw of
             Inl e \<Rightarrow> Inl e
           | Inr vals \<Rightarrow> Inr (PObj cn vals)))"

text \<open>
  Four record types, each with the initializer generated for it.  \<open>Point\<close> has the
  fields \<open>x\<close>, \<open>y\<close> and the non-init field \<open>z\<close>.  \<open>Flags\<close> has the fields \<open>x\<close> and \<open>y\<close>,
  declared with \<open>converter=to_bool\<close>.  \<open>Box\<close> has the single field \<open>x\<close>.  \<open>Private\<close> has
  the single field \<open>_x\<close>, which its initializer takes under the alias \<open>x\<close>.
\<close>

definition plain_field :: "string \<Rightarrow> bool \<Rightarrow> Attribute" where
  "plain_field nm i =
     \<lparr>name = nm, declared_type = None, init = i, validator = None, converter = None,
       alias' = None\<rparr>"

definition converting_field :: "string \<Rightarrow> Attribute" where
  "converting_field nm =
     \<lparr>name = nm, declared_type = Some T_bool, init = True, validator = None,
       converter = Some 0, alias' = None\<rparr>"

definition private_field :: "string \<Rightarrow> string \<Rightarrow> Attribute" where
  "private_field nm al =
     \<lparr>name = nm, declared_type = None, init = True, validator = None, converter = None,
       alias' = Some al\<rparr>"

definition demo_classes :: "string \<rightharpoonup> Attribute list" where
  "demo_classes =
     [''Point'' \<mapsto> [plain_field ''x'' True, plain_field ''y'' True, plain_field ''z'' False],
      ''Flags'' \<mapsto> [converting_field ''x'', converting_field ''y''],
      ''Box'' \<mapsto> [plain_field ''x'' True],
      ''Private'' \<mapsto> [private_field ''_x'' ''x'']]"

definition demo_registry :: registry where
  "demo_registry =
     \<lparr>attrs_attrs = demo_classes,
      construct = (\<lambda>cn kw.
        case demo_classes cn of
          Some attrs \<Rightarrow> generated_init (\<lambda>_. to_bool) attrs cn kw
        | None \<Rightarrow> Inl (Raise TypeError ''{cls}() takes no arguments'' [PStr cn])),
      hashable_class = (\<lambda>_. False)\<rparr>"

definition point :: "int \<Rightarrow> int \<Rightarrow> pyval" where
  "point x y = PObj ''Point'' [(''x'', PInt x), (''y'', PInt y), (''z'', PNone)]"

subsection \<open>The built-in constructors\<close>

text \<open>
  The part of a value that makes it unhashable, if any: a list, a set, a dict, an
  instance of a class without \<open>__hash__\<close>, or such a part of a tuple.
\<close>

fun unhashable_part :: "registry \<Rightarrow> pyval \<Rightarrow> pyval option" where
  "unhashable_part reg (PList xs) = Some (PList xs)"
| "unhashable_part reg (PSet xs) = Some (PSet xs)"
| "unhashable_part reg (PDict d) = Some (PDict d)"
| "unhashable_part reg (PObj cn attrs) =
     (if hashable_class reg cn then None else Some (PObj cn attrs))"
| "unhashable_part reg (PTuple xs) =
     (case filter (\<lambda>u. u \<noteq> None) (map (unhashable_part reg) xs) of
        [] \<Rightarrow> None
      | u # _ \<Rightarrow> u)"
| "unhashable_part reg _ = None"

definition unhashable :: "pyval \<Rightarrow> exn" where
  "unhashable u =
     Raise TypeError ''unhashable type: {type.__name__!r}'' [PStr (type_name (py_class u))]"

text \<open>The first unhashable part among the elements, in order.\<close>

definition first_unhashable :: "registry \<Rightarrow> pyval list \<Rightarrow> pyval option" where
  "first_unhashable reg xs =
     (case filter (\<lambda>u. u \<noteq> None) (map (unhashable_part reg) xs) of
        [] \<Rightarrow> None
      | u # _ \<Rightarrow> u)"

text \<open>
  Elements are compared structurally when a set or a dict drops duplicates (Python
  also takes \<open>True\<close> for 1 and \<open>False\<close> for 0); the first occurrence keeps its place.
\<close>

definition dedupe :: "'a list \<Rightarrow> 'a list" where
  "dedupe xs = foldl (\<lambda>acc x. if x \<in> set acc then acc else acc @ [x]) [] xs"

definition py_list :: "pyval list \<Rightarrow> exn + pyval" where
  "py_list xs = Inr (PList xs)"

definition py_tuple :: "pyval list \<Rightarrow> exn + pyval" where
  "py_tuple xs = Inr (PTuple xs)"

definition py_set :: "registry \<Rightarrow> pyval list \<Rightarrow> exn + pyval" where
  "py_set reg xs =
     (case first_unhashable reg xs of
        Some u \<Rightarrow> Inl (unhashable u)
      | None \<Rightarrow> Inr (PSet (dedupe xs)))"

definition py_frozenset :: "registry \<Rightarrow> pyval list \<Rightarrow> exn + pyval" where
  "py_frozenset reg xs =
     (case first_unhashable reg xs of
        Some u \<Rightarrow> Inl (unhashable u)
      | None \<Rightarrow> Inr (PFrozenset (dedupe xs)))"

text \<open>\<open>type(val)\<close> called on a list, for a value that is a tuple, list, set or frozenset.\<close>

definition call_type_of :: "registry \<Rightarrow> pyval \<Rightarrow> pyval list \<Rightarrow> exn + pyval" where
  "call_type_of reg val xs =
     (case val of
        PTuple _ \<Rightarrow> py_tuple xs
      | PList _ \<Rightarrow> py_list xs
      | PSet _ \<Rightarrow> py_set reg xs
      | PFrozenset _ \<Rightarrow> py_frozenset reg xs
      | _ \<Rightarrow> Inl (Raise TypeError ''{!r} is not a collection type''
                    [PStr (type_name (py_class val))]))"

subsection \<open>asdict, _asdict_anything and astuple\<close>

text \<open>
  The projection recurses as deep as the value is nested, and a \<open>value_serializer\<close> may
  return a value deeper than the one it received.  The functions take the number of
  nested calls they may still make; \<open>None\<close> is the outcome of a run that needs more.
  Otherwise the outcome is the exception raised or the value returned.
\<close>

type_synonym 'a outcome = "(exn + 'a) option"

definition obind :: "'a outcome \<Rightarrow> ('a \<Rightarrow> 'b outcome) \<Rightarrow> 'b outcome" where
  "obind m f = (case m of None \<Rightarrow> None | Some (Inl e) \<Rightarrow> Some (Inl e) | Some (Inr x) \<Rightarrow> f x)"

text \<open>A \<open>for\<close> loop that updates an accumulator and ends at the first failure.\<close>

fun for_each :: "('a \<Rightarrow> 'b \<Rightarrow> 'b outcome) \<Rightarrow> 'a list \<Rightarrow> 'b \<Rightarrow> 'b outcome" where
  "for_each step [] acc = Some (Inr acc)"
| "for_each step (x # xs) acc = obind (step x acc) (for_each step xs)"

text \<open>A list comprehension: the elements are computed in order, up to the first failure.\<close>

fun comprehension :: "('a \<Rightarrow> 'b outcome) \<Rightarrow> 'a list \<Rightarrow> 'b list outcome" where
  "comprehension f [] = Some (Inr [])"
| "comprehension f (x # xs) =
     obind (f x) (\<lambda>y. obind (comprehension f xs) (\<lambda>ys. Some (Inr (y # ys))))"

text \<open>
  The built-in \<open>dict\<close> called on a generator of pairs.  The generator is the list of the
  outcomes of computing each pair; \<open>dict\<close> takes them in order, hashes the key of each
  pair as it inserts it, and ends at the first failure.  Called with no argument, it
  receives no pair.
\<close>

fun dict_consume ::
  "registry \<Rightarrow> (pyval \<times> pyval) list \<Rightarrow> (pyval \<times> pyval) outcome list \<Rightarrow> pyval outcome" where
  "dict_consume reg d [] = Some (Inr (PDict d))"
| "dict_consume reg d (None # gen) = None"
| "dict_consume reg d (Some (Inl e) # gen) = Some (Inl e)"
| "dict_consume reg d (Some (Inr (k, v)) # gen) =
     (case unhashable_part reg k of
        Some u \<Rightarrow> Some (Inl (unhashable u))
      | None \<Rightarrow> dict_consume reg (dict_setitem d k v) gen)"

definition py_dict :: "registry \<Rightarrow> (pyval \<times> pyval) outcome list \<Rightarrow> pyval outcome" where
  "py_dict reg gen = dict_consume reg [] gen"

text \<open>\<open>rv[key] = v\<close> on what the dict factory returned; the key is a field name.\<close>

definition setitem :: "pyval \<Rightarrow> pyval \<Rightarrow> pyval \<Rightarrow> exn + pyval" where
  "setitem rv k v =
     (case rv of
        PDict d \<Rightarrow> Inr (PDict (dict_setitem d k v))
      | _ \<Rightarrow> Inl (Raise TypeError ''{!r} object does not support item assignment''
                    [PStr (type_name (py_class rv))]))"

text \<open>\<open>isinstance(v, (tuple, list, set, frozenset))\<close>, and the elements iterating gives.\<close>

fun isinstance_collection :: "pyval \<Rightarrow> bool" where
  "isinstance_collection (PTuple _) = True"
| "isinstance_collection (PList _) = True"
| "isinstance_collection (PSet _) = True"
| "isinstance_collection (PFrozenset _) = True"
| "isinstance_collection _ = False"

fun elements :: "pyval \<Rightarrow> pyval list" where
  "elements (PTuple xs) = xs"
| "elements (PList xs) = xs"
| "elements (PSet xs) = xs"
| "elements (PFrozenset xs) = xs"
| "elements _ = []"

fun isinstance_dict :: "pyval \<Rightarrow> bool" where
  "isinstance_dict (PDict _) = True"
| "isinstance_dict _ = False"

fun items :: "pyval \<Rightarrow> (pyval \<times> pyval) list" where
  "items (PDict d) = d"
| "items _ = []"

type_synonym filter_fn = "Attribute \<Rightarrow> pyval \<Rightarrow> exn + bool"
type_synonym serializer_fn = "pyval \<Rightarrow> Attribute \<Rightarrow> pyval \<Rightarrow> exn + pyval"
type_synonym dict_factory_fn = "(pyval \<times> pyval) outcome list \<Rightarrow> pyval outcome"
type_synonym tuple_factory_fn = "pyval list \<Rightarrow> exn + pyval"

fun asdict ::
    "nat \<Rightarrow> registry \<Rightarrow> pyval \<Rightarrow> bool \<Rightarrow> filter_fn option \<Rightarrow> dict_factory_fn \<Rightarrow> bool \<Rightarrow>
     serializer_fn option \<Rightarrow> pyval outcome"
  and asdict_anything ::
    "nat \<Rightarrow> registry \<Rightarrow> pyval \<Rightarrow> bool \<Rightarrow> filter_fn option \<Rightarrow> dict_factory_fn \<Rightarrow> bool \<Rightarrow>
     serializer_fn option \<Rightarrow> pyval outcome"
where
  "asdict 0 reg inst recurse flt dict_factory retain_collection_types value_serializer = None"
| "asdict (Suc n) reg inst recurse flt dict_factory retain_collection_types value_serializer =
     obind (Some (fields reg (py_class inst))) (\<lambda>attrs.
     obind (dict_factory []) (\<lambda>rv0.
     for_each (\<lambda>a rv.
       obind (Some (getattr inst (name a))) (\<lambda>v.
       obind (Some (case flt of None \<Rightarrow> Inr True | Some f \<Rightarrow> f a v)) (\<lambda>keep.
         if \<not> keep then Some (Inr rv)
         else
           obind (Some (case value_serializer of None \<Rightarrow> Inr v | Some f \<Rightarrow> f inst a v)) (\<lambda>v.
           obind
             (if recurse then
                (if has reg (py_class v) then
                   asdict n reg v True flt dict_factory retain_collection_types
                     value_serializer
                 else if isinstance_collection v then
                   asdict_anything n reg v recurse flt dict_factory retain_collection_types
                     value_serializer
                 else Some (Inr v))
              else Some (Inr v))
             (\<lambda>v. Some (setitem rv (PStr (name a)) v))))))
       attrs rv0))"
| "asdict_anything 0 reg val recurse flt dict_factory retain_collection_types value_serializer
     = None"
| "asdict_anything (Suc n) reg val recurse flt dict_factory retain_collection_types
       value_serializer =
     (if isinstance_dict val then
        dict_factory
          (map (\<lambda>(k, v).
                  obind (asdict_anything n reg k recurse flt dict_factory
                           retain_collection_types value_serializer) (\<lambda>k'.
                  obind (asdict_anything n reg v recurse flt dict_factory
                           retain_collection_types value_serializer) (\<lambda>v'.
                  Some (Inr (k', v')))))
             (items val))
      else if isinstance_collection val then
        obind
          (comprehension
             (\<lambda>i. asdict_anything n reg i recurse flt dict_factory retain_collection_types
                     value_serializer)
             (elements val))
          (\<lambda>xs. Some ((if retain_collection_types then call_type_of reg val else py_list) xs))
      else if has reg (py_class val) then
        asdict n reg val recurse flt dict_factory retain_collection_types value_serializer
      else Some (Inr val))"

text \<open>\<open>isinstance(v, (tuple, list, set, frozenset, dict))\<close>, the test in \<open>astuple\<close>.\<close>

definition isinstance_collection_or_dict :: "pyval \<Rightarrow> bool" where
  "isinstance_collection_or_dict v \<longleftrightarrow> isinstance_collection v \<or> isinstance_dict v"

text \<open>
  \<open>astuple\<close>.  For a container it calls \<open>_astuple_anything\<close>.  The module binds no
  such name (it is not in \<open>funcs_module_names\<close>), so reading it raises NameError.
\<close>

fun astuple ::
  "nat \<Rightarrow> registry \<Rightarrow> pyval \<Rightarrow> bool \<Rightarrow> filter_fn option \<Rightarrow> tuple_factory_fn \<Rightarrow> bool \<Rightarrow>
   pyval outcome" where
  "astuple 0 reg inst recurse flt tuple_factory retain_collection_types = None"
| "astuple (Suc n) reg inst recurse flt tuple_factory retain_collection_types =
     obind (Some (fields reg (py_class inst))) (\<lambda>attrs.
     obind
       (for_each (\<lambda>a rv.
          obind (Some (getattr inst (name a))) (\<lambda>v.
          obind (Some (case flt of None \<Rightarrow> Inr True | Some f \<Rightarrow> f a v)) (\<lambda>keep.
            if \<not> keep then Some (Inr rv)
            else
              obind
                (if recurse then
                   (if has reg (py_class v) then
                      astuple n reg v True flt tuple_factory retain_collection_types
                    else if isinstance_collection_or_dict v then
                      Some (Inl (name_error ''_astuple_anything''))
                    else Some (Inr v))
                 else Some (Inr v))
                (\<lambda>v. Some (Inr (rv @ [v]))))))
          attrs [])
       (\<lambda>rv. Some (tuple_factory rv)))"

text \<open>An instance of \<open>Box\<close> holding the value \<open>v\<close> in its field \<open>x\<close>.\<close>

definition box :: "pyval \<Rightarrow> pyval" where
  "box v = PObj ''Box'' [(''x'', v)]"

section \<open>Properties of the filters\<close>

lemma include_characterisation:
  "include' what attribute v \<longleftrightarrow>
     SName (name attribute) \<in> set what \<or> SType T_Attribute \<in> set what
     \<or> SAttr attribute \<in> set what"
  by (auto simp: include'_def include_filter_def split_what_def attribute_class_def)

text \<open>
  C4.  The claim: \<open>include(S)\<close> accepts a field when its name is in S, when its declared
  type is one of the types in S, or when the field token is in S; \<open>include(T)\<close> for a type
  \<open>T\<close> accepts exactly the fields declared with type \<open>T\<close>.  The code looks up
  \<open>attribute.__class__\<close>, the class of the field token, which is \<open>Attribute\<close> for every
  field: \<open>include(int)\<close> rejects the field \<open>x: int\<close> holding 1.
\<close>

theorem include_int_rejects_int_field:
  "include' [SType T_int]
     \<lparr>name = ''x'', declared_type = Some T_int, init = True, validator = None,
       converter = None, alias' = None\<rparr>
     (PInt 1) = False"
  by (simp add: include'_def include_filter_def split_what_def attribute_class_def)

text \<open>
  C8.  For every selector list and every pair of a field and a value, exactly one of
  \<open>include(S)\<close> and \<open>exclude(S)\<close> accepts the pair: none passes both, none fails both.
\<close>

theorem include_exclude_complement:
  "(include' what attribute v \<or> exclude' what attribute v)
   \<and> \<not> (include' what attribute v \<and> exclude' what attribute v)"
  by (auto simp: include'_def exclude'_def include_filter_def exclude_filter_def
      split: prod.splits)

theorem include_exclude_complement_witness:
  "include' [SName ''x''] demo_field (PInt 1) = False
   \<and> exclude' [SName ''x''] demo_field (PInt 1) = True
   \<and> include' [SName ''flag''] demo_field (PInt 1) = True
   \<and> exclude' [SName ''flag''] demo_field (PInt 1) = False"
  using include_exclude_complement [of "[SName ''x'']" demo_field "PInt 1"]
    include_exclude_complement [of "[SName ''flag'']" demo_field "PInt 1"]
  by (simp add: include_characterisation demo_field_def)

text \<open>
  C10.  The predicates returned by \<open>include(S)\<close> and \<open>exclude(S)\<close> do not look at their
  value argument: any two values give the same verdict for a field.
\<close>

theorem include_value_irrelevant:
  "include' what attribute v1 = include' what attribute v2
   \<and> exclude' what attribute v1 = exclude' what attribute v2"
  by (simp add: include'_def exclude'_def include_filter_def exclude_filter_def)

theorem include_value_irrelevant_witness:
  "include' [SName ''flag''] demo_field (PInt 1) = include' [SName ''flag''] demo_field PNone
   \<and> exclude' [SName ''flag''] demo_field (PInt 1) = exclude' [SName ''flag''] demo_field PNone"
  using include_value_irrelevant [of "[SName ''flag'']" demo_field "PInt 1" PNone]
  by simp

section \<open>Properties of to_bool\<close>

lemma lower_digit_char: "d < 10 \<Longrightarrow> lower_char (digit_char d) = digit_char d"
  by (simp add: lower_char_def digit_char_def Let_def)

lemma str_lower_digits: "str_lower (digits n) = digits n"
proof (induction n rule: digits.induct)
  case (1 n)
  show ?case
  proof (cases "n < 10")
    case True
    then show ?thesis
      by (simp add: digits.simps [of n] str_lower_def lower_digit_char)
  next
    case False
    with 1 show ?thesis
      by (simp add: digits.simps [of n] str_lower_def lower_digit_char)
  qed
qed

lemma minus_lower: "lower_char CHR ''-'' = CHR ''-''"
  by code_simp

lemma str_lower_str_of_int: "str_lower (str_of_int i) = str_of_int i"
  using str_lower_digits [of "nat (- i)"] str_lower_digits [of "nat i"]
  by (simp add: str_of_int_def str_lower_def minus_lower)

lemma digits_nonempty: "digits n \<noteq> []"
  by (subst digits.simps) simp

lemma digits_single: "digits n = [c] \<longleftrightarrow> n < 10 \<and> c = digit_char n"
proof (cases "n < 10")
  case True
  then show ?thesis by (auto simp: digits.simps [of n])
next
  case False
  then have e: "digits n = digits (n div 10) @ [digit_char (n mod 10)]"
    by (subst digits.simps) simp
  have "length (digits (n div 10)) \<noteq> 0"
    using digits_nonempty [of "n div 10"] by simp
  then have "length (digits n) \<noteq> 1" unfolding e by simp
  then have "digits n \<noteq> [c]" by auto
  with False show ?thesis by simp
qed

lemma digit_char_code: "d < 10 \<Longrightarrow> (of_char (digit_char d) :: nat) = 48 + d"
  by (simp add: digit_char_def)

lemma digit_char_inj:
  assumes "a < 10" and "b < 10" and "digit_char a = digit_char b"
  shows "a = b"
proof -
  have "(of_char (digit_char a) :: nat) = of_char (digit_char b)"
    by (simp only: assms(3))
  then have "48 + a = 48 + b"
    by (simp only: digit_char_code [OF assms(1)] digit_char_code [OF assms(2)])
  then show ?thesis by simp
qed

lemma digits_all_digit: "c \<in> set (digits n) \<Longrightarrow> \<exists>d<10. c = digit_char d"
proof (induction n rule: digits.induct)
  case (1 n)
  show ?case
  proof (cases "n < 10")
    case True
    with "1.prems" show ?thesis by (auto simp: digits.simps [of n])
  next
    case False
    have "n mod 10 < 10" by simp
    with False 1 show ?thesis
      by (auto simp: digits.simps [of n] simp del: mod_less_divisor)
  qed
qed

lemma str_of_int_chars:
  assumes "c \<in> set (str_of_int i)"
  shows "(of_char c :: nat) \<le> 57"
proof -
  have m: "(of_char CHR ''-'' :: nat) \<le> 57" by simp
  from assms have "c = CHR ''-'' \<or> (\<exists>d<10. c = digit_char d)"
    by (auto simp: str_of_int_def dest: digits_all_digit split: if_splits)
  then show ?thesis using digit_char_code m by auto
qed

lemma str_of_int_one: "str_of_int i = ''1'' \<longleftrightarrow> i = 1"
proof
  assume h: "str_of_int i = ''1''"
  then have nn: "\<not> i < 0" by (auto simp: str_of_int_def split: if_splits)
  with h have "digits (nat i) = [CHR ''1'']" by (simp add: str_of_int_def)
  then have "nat i < 10" and "CHR ''1'' = digit_char (nat i)" by (simp_all add: digits_single)
  moreover have "CHR ''1'' = digit_char 1" by code_simp
  ultimately have "nat i = 1" using digit_char_inj [of "nat i" 1] by simp
  with nn show "i = 1" by simp
next
  have "str_of_int 1 = ''1''" by code_simp
  moreover assume "i = 1"
  ultimately show "str_of_int i = ''1''" by simp
qed

lemma str_of_int_zero: "str_of_int i = ''0'' \<longleftrightarrow> i = 0"
proof
  assume h: "str_of_int i = ''0''"
  then have nn: "\<not> i < 0" by (auto simp: str_of_int_def split: if_splits)
  with h have "digits (nat i) = [CHR ''0'']" by (simp add: str_of_int_def)
  then have "nat i < 10" and "CHR ''0'' = digit_char (nat i)" by (simp_all add: digits_single)
  moreover have "CHR ''0'' = digit_char 0" by code_simp
  ultimately have "nat i = 0" using digit_char_inj [of "nat i" 0] by simp
  with nn show "i = 0" by simp
next
  have "str_of_int 0 = ''0''" by code_simp
  moreover assume "i = 0"
  ultimately show "str_of_int i = ''0''" by simp
qed

lemma str_of_int_no_letter:
  assumes "(of_char c :: nat) > 57" and "c \<in> set t"
  shows "str_of_int i \<noteq> t"
  using assms str_of_int_chars [of c i] by auto

lemma str_of_int_truthy: "str_of_int i \<in> set truthy_tokens \<longleftrightarrow> i = 1"
  using str_of_int_no_letter [of "CHR ''t''" _ i] str_of_int_no_letter [of "CHR ''y''" _ i]
    str_of_int_no_letter [of "CHR ''o''" _ i]
  by (auto simp: truthy_tokens_def str_of_int_one)

lemma str_of_int_falsy: "str_of_int i \<in> set falsy_tokens \<longleftrightarrow> i = 0"
  using str_of_int_no_letter [of "CHR ''f''" _ i] str_of_int_no_letter [of "CHR ''n''" _ i]
    str_of_int_no_letter [of "CHR ''o''" _ i]
  by (auto simp: falsy_tokens_def str_of_int_zero)

lemma tokens_lower: "t \<in> set truthy_tokens \<union> set falsy_tokens \<Longrightarrow> str_lower t = t"
  unfolding truthy_tokens_def falsy_tokens_def
  by (elim UnE; simp; elim disjE; simp; code_simp)

lemma tokens_disjoint: "t \<in> set truthy_tokens \<Longrightarrow> t \<notin> set falsy_tokens"
  by (auto simp: truthy_tokens_def falsy_tokens_def)

lemma to_bool_bool: "to_bool (PBool b) = Inr (PBool b)"
  by (simp add: to_bool_def)

lemma to_bool_int:
  "to_bool (PInt i) =
     (if i = 1 then Inr (PBool True) else if i = 0 then Inr (PBool False)
      else Inl (Raise ValueError ''Cannot convert {val!r} to bool'' [PStr (str_of_int i)]))"
  by (simp add: to_bool_def str_lower_str_of_int str_of_int_truthy str_of_int_falsy)

lemma to_bool_str:
  "to_bool (PStr s) =
     (if str_lower s \<in> set truthy_tokens then Inr (PBool True)
      else if str_lower s \<in> set falsy_tokens then Inr (PBool False)
      else Inl (Raise ValueError ''Cannot convert {val!r} to bool'' [PStr (str_lower s)]))"
  by (simp add: to_bool_def Let_def)

lemma to_bool_other:
  "\<not> isinstance_str_int val \<Longrightarrow>
     to_bool val = Inl (Raise ValueError ''Cannot convert {val!r} to bool'' [val])"
  by (cases val) (simp_all add: to_bool_def)

lemma matches_truthy:
  "(\<exists>t \<in> set truthy_tokens. eq_ignoring_case s t) \<longleftrightarrow> str_lower s \<in> set truthy_tokens"
  using tokens_lower by (auto simp: eq_ignoring_case_def)

lemma matches_falsy:
  "(\<exists>t \<in> set falsy_tokens. eq_ignoring_case s t) \<longleftrightarrow> str_lower s \<in> set falsy_tokens"
  using tokens_lower by (auto simp: eq_ignoring_case_def)

lemma str_lower_maybe: "str_lower ''maybe'' = ''maybe''"
  by code_simp

text \<open>
  C6, as the claim states it, fails where it says that the error names the offending
  input: for the input \<open>"Maybe"\<close> the message names \<open>'maybe'\<close>.
\<close>

theorem to_bool_error_names_lowered_text:
  "to_bool (PStr ''Maybe'')
     = Inl (Raise ValueError ''Cannot convert {val!r} to bool'' [PStr ''maybe''])
   \<and> to_bool (PStr ''Maybe'')
     \<noteq> Inl (Raise ValueError ''Cannot convert {val!r} to bool'' [PStr ''Maybe''])"
  by code_simp

text \<open>
  C6, amended.  \<open>to_bool\<close> returns True exactly for the boolean True, the integer 1 and
  the texts that match one of "true", "t", "yes", "y", "on", "1" case-insensitively; it
  returns False exactly for the boolean False, the integer 0 and the texts that match
  one of "false", "f", "no", "n", "off", "0"; every other input raises a ValueError whose
  message names the input, a text in lower case and an integer as its decimal text.
\<close>

theorem to_bool_table:
  "(to_bool val = Inr (PBool True) \<longleftrightarrow> is_truthy val)
   \<and> (to_bool val = Inr (PBool False) \<longleftrightarrow> is_falsy val)
   \<and> (\<not> is_truthy val \<and> \<not> is_falsy val \<longrightarrow>
        to_bool val = Inl (Raise ValueError ''Cannot convert {val!r} to bool'' [named_in_error val]))"
proof (cases val)
  case (PBool b)
  then show ?thesis by (auto simp: to_bool_bool)
next
  case (PInt i)
  then show ?thesis by (auto simp: to_bool_int named_in_error_def)
next
  case (PStr s)
  then show ?thesis
    using tokens_disjoint [of "str_lower s"]
    by (auto simp: to_bool_str named_in_error_def matches_truthy matches_falsy)
qed (simp_all add: to_bool_other named_in_error_def)

lemma str_lower_YES: "str_lower ''YES'' = ''yes''"
  by code_simp

theorem to_bool_table_witness:
  "is_truthy (PStr ''YES'') \<and> to_bool (PStr ''YES'') = Inr (PBool True)
   \<and> is_falsy (PInt 0) \<and> to_bool (PInt 0) = Inr (PBool False)
   \<and> \<not> is_truthy (PStr ''maybe'') \<and> \<not> is_falsy (PStr ''maybe'')
   \<and> to_bool (PStr ''maybe'')
     = Inl (Raise ValueError ''Cannot convert {val!r} to bool'' [PStr ''maybe''])"
proof -
  have y: "is_truthy (PStr ''YES'')"
    unfolding is_truthy.simps matches_truthy
    by (simp add: str_lower_YES truthy_tokens_def)
  have z: "is_falsy (PInt 0)" by simp
  have h: "\<not> is_truthy (PStr ''maybe'') \<and> \<not> is_falsy (PStr ''maybe'')"
    unfolding is_truthy.simps is_falsy.simps matches_truthy matches_falsy
    by (simp add: str_lower_maybe truthy_tokens_def falsy_tokens_def)
  have m: "named_in_error (PStr ''maybe'') = PStr ''maybe''"
    by (simp add: named_in_error_def str_lower_maybe)
  from y to_bool_table [of "PStr ''YES''"]
  have r1: "to_bool (PStr ''YES'') = Inr (PBool True)" by blast
  from z to_bool_table [of "PInt 0"]
  have r2: "to_bool (PInt 0) = Inr (PBool False)" by blast
  from h to_bool_table [of "PStr ''maybe''"]
  have r3: "to_bool (PStr ''maybe'')
     = Inl (Raise ValueError ''Cannot convert {val!r} to bool'' [PStr ''maybe''])"
    unfolding m by blast
  from y z h r1 r2 r3 show ?thesis by blast
qed

section \<open>Properties of cmp_using\<close>

lemma cmp_using_body:
  "body (fst (cmp_using eq lt le gt ge r cname n)) m =
     (if m = ''__ne__'' then map_option (\<lambda>op. make_ne (make_method r ''__eq__'' op)) eq
      else map_option (make_method r m) (wired eq lt le gt ge m))"
  by (cases eq; cases lt; cases le; cases gt; cases ge)
     (auto simp: cmp_using_def wired_def Let_def)

lemma make_method_differ:
  "wrapper_class a \<noteq> wrapper_class b \<Longrightarrow> make_method True nm op a b = Inr NotImplemented"
  by (simp add: make_method_def)

lemma make_method_same:
  "wrapper_class a = wrapper_class b \<Longrightarrow>
     make_method r nm op a b = outcome_of (op (value' a) (value' b))"
  by (simp add: make_method_def outcome_of_def)

lemma make_ne_differ:
  "wrapper_class a \<noteq> wrapper_class b \<Longrightarrow>
     make_ne (make_method True nm op) a b = Inr NotImplemented"
  by (simp add: make_ne_def make_method_def)

lemma make_ne_same:
  "wrapper_class a = wrapper_class b \<Longrightarrow>
     make_ne (make_method r nm op) a b = negated_outcome_of (op (value' a) (value' b))"
  by (simp add: make_ne_def make_method_def negated_outcome_of_def split: sum.splits)

text \<open>
  C2.  For a class built by \<open>cmp_using\<close> with \<open>require_same_type=True\<close>, every method in
  its body (eq, lt, le, gt, ge and the derived ne) returns \<open>NotImplemented\<close>, and raises
  nothing, on two wrappers of different classes; on two wrappers of one class the method
  returns the result of the predicate given for it on the two wrapped values, and ne
  returns the negation of the result of \<open>eq\<close>.
\<close>

theorem cmp_using_require_same_type:
  assumes "cmp_using eq lt le gt ge True cname n = (C, n')"
  shows "(\<forall>m f. body C m = Some f \<longrightarrow> wrapper_class a \<noteq> wrapper_class b \<longrightarrow>
            f a b = Inr NotImplemented)
       \<and> (wrapper_class a = wrapper_class b \<longrightarrow>
            (\<forall>m op. wired eq lt le gt ge m = Some op \<longrightarrow>
               (\<exists>f. body C m = Some f \<and> f a b = outcome_of (op (value' a) (value' b))))
          \<and> (\<forall>op. eq = Some op \<longrightarrow>
               (\<exists>f. body C ''__ne__'' = Some f
                    \<and> f a b = negated_outcome_of (op (value' a) (value' b)))))"
proof -
  have C: "C = fst (cmp_using eq lt le gt ge True cname n)"
    using assms by simp
  have differ: "f a b = Inr NotImplemented"
    if "body C m = Some f" and "wrapper_class a \<noteq> wrapper_class b" for m f
  proof (cases "m = ''__ne__''")
    case True
    with that(1) obtain op where "f = make_ne (make_method True ''__eq__'' op)"
      unfolding C cmp_using_body by auto
    with that(2) show ?thesis by (simp add: make_ne_differ)
  next
    case False
    with that(1) obtain op where "f = make_method True m op"
      unfolding C cmp_using_body by auto
    with that(2) show ?thesis by (simp add: make_method_differ)
  qed
  have same: "\<exists>f. body C m = Some f \<and> f a b = outcome_of (op (value' a) (value' b))"
    if "wrapper_class a = wrapper_class b" and "wired eq lt le gt ge m = Some op" for m op
  proof -
    from that(2) have "m \<noteq> ''__ne__''" by (auto simp: wired_def split: if_splits)
    with that(2) have "body C m = Some (make_method True m op)"
      unfolding C cmp_using_body by simp
    with that(1) show ?thesis by (simp add: make_method_same)
  qed
  have ne: "\<exists>f. body C ''__ne__'' = Some f
              \<and> f a b = negated_outcome_of (op (value' a) (value' b))"
    if "wrapper_class a = wrapper_class b" and "eq = Some op" for op
  proof -
    from that(2) have "body C ''__ne__'' = Some (make_ne (make_method True ''__eq__'' op))"
      unfolding C cmp_using_body by simp
    with that(1) show ?thesis by (simp add: make_ne_same)
  qed
  from differ same ne show ?thesis by blast
qed

theorem cmp_using_require_same_type_witness:
  "(let (C1, n1) = cmp_using (Some int_eq) (Some int_lt) None None None True ''Comparable'' 0;
        (C2, n2) = cmp_using (Some int_eq) (Some int_lt) None None None True ''Comparable'' n1;
        a = init_method C1 3; b = init_method C1 5; c = init_method C2 3
    in the (body C1 ''__eq__'') a c = Inr NotImplemented
     \<and> the (body C1 ''__ne__'') a c = Inr NotImplemented
     \<and> the (body C1 ''__lt__'') a c = Inr NotImplemented
     \<and> the (body C1 ''__eq__'') a b = Inr (Returned False)
     \<and> the (body C1 ''__ne__'') a b = Inr (Returned True)
     \<and> the (body C1 ''__lt__'') a b = Inr (Returned True))"
proof -
  define C1 where "C1 = fst (cmp_using (Some int_eq) (Some int_lt) None None None True ''Comparable'' 0)"
  have c1: "cmp_using (Some int_eq) (Some int_lt) None None None True ''Comparable'' 0 = (C1, Suc 0)"
    by (simp add: C1_def cmp_using_def)
  note th = cmp_using_require_same_type [OF c1]
  show ?thesis
    using th [of "make_init 0 3" "make_init 1 3"] th [of "make_init 0 3" "make_init 0 5"]
    by (simp add: cmp_using_def C1_def Let_def make_init_def make_method_def make_ne_def
        int_eq_def int_lt_def)
qed

section \<open>Properties of the setters\<close>

lemma pipe_setter_append:
  "pipe_setter (xs @ ys) instance attribute v s =
     (case pipe_setter xs instance attribute v s of
        (Inl e, s') \<Rightarrow> (Inl e, s')
      | (Inr v', s') \<Rightarrow> pipe_setter ys instance attribute v' s')"
  by (induction xs arbitrary: v s) (auto split: prod.splits sum.splits)

lemma pipe_setter_single: "pipe_setter [st] instance attribute v s = st instance attribute v s"
  by (auto split: prod.splits sum.splits)

lemma pipe_validate_convert:
  "pipe [validate tbl, convert tbl] instance attrib v s =
     (case validate tbl instance attrib v s of
        (Inl e, s') \<Rightarrow> (Inl e, s')
      | (Inr v', s') \<Rightarrow> convert tbl instance attrib v' s')"
  by (auto simp: pipe_def split: prod.splits sum.splits)

text \<open>
  C7.  \<open>pipe\<close> runs its stages in the order given: the value a stage returns is the value
  the next stage receives, and the value the last stage returns is the result; a stage
  that raises ends the run.  So \<open>pipe(validate, convert)\<close> validates the incoming value
  first: when the validator raises, the result is its exception and the world is as the
  validator left it, the converter not having run; when the validator accepts, the
  result is what the converter makes of the value.
\<close>

theorem pipe_in_declaration_order:
  "pipe [] inst attrib v s = (Inr v, s)
   \<and> pipe (st # sts) inst attrib v s =
       (case st inst attrib v s of
          (Inl e, s') \<Rightarrow> (Inl e, s')
        | (Inr v', s') \<Rightarrow> pipe sts inst attrib v' s')
   \<and> pipe (sts @ [st]) inst attrib v s =
       (case pipe sts inst attrib v s of
          (Inl e, s') \<Rightarrow> (Inl e, s')
        | (Inr v', s') \<Rightarrow> st inst attrib v' s')
   \<and> (\<forall>r e s'. validator attrib = Some r \<and> validators tbl r inst attrib v s = (Inl e, s')
         \<longrightarrow> pipe [validate tbl, convert tbl] inst attrib v s = (Inl e, s'))
   \<and> (\<forall>r u s'. validator attrib = Some r \<and> validators tbl r inst attrib v s = (Inr u, s')
         \<longrightarrow> pipe [validate tbl, convert tbl] inst attrib v s
             = convert tbl inst attrib v s')
   \<and> (validator attrib = None
         \<longrightarrow> pipe [validate tbl, convert tbl] inst attrib v s
             = convert tbl inst attrib v s)"
proof -
  have "pipe (sts @ [st]) inst attrib v s =
       (case pipe sts inst attrib v s of
          (Inl e, s') \<Rightarrow> (Inl e, s')
        | (Inr v', s') \<Rightarrow> st inst attrib v' s')"
    unfolding pipe_def pipe_setter_append
    by (simp add: pipe_setter_single split: prod.splits sum.splits)
  moreover have "pipe [] inst attrib v s = (Inr v, s)"
    by (simp add: pipe_def)
  moreover have "pipe (st # sts) inst attrib v s =
       (case st inst attrib v s of
          (Inl e, s') \<Rightarrow> (Inl e, s')
        | (Inr v', s') \<Rightarrow> pipe sts inst attrib v' s')"
    unfolding pipe_def by simp
  moreover have "pipe [validate tbl, convert tbl] inst attrib v s = (Inl e, s')"
    if "validator attrib = Some r" and "validators tbl r inst attrib v s = (Inl e, s')"
    for r e s'
    using that by (simp add: pipe_validate_convert validate_def)
  moreover have "pipe [validate tbl, convert tbl] inst attrib v s
             = convert tbl inst attrib v s'"
    if "validator attrib = Some r" and "validators tbl r inst attrib v s = (Inr u, s')"
    for r u s'
    using that by (simp add: pipe_validate_convert validate_def)
  moreover have "pipe [validate tbl, convert tbl] inst attrib v s
             = convert tbl inst attrib v s"
    if "validator attrib = None"
    using that by (simp add: pipe_validate_convert validate_def)
  ultimately show ?thesis by blast
qed

theorem pipe_in_declaration_order_witness:
  "validator demo_field = Some 0
   \<and> validators demo_callables 0 (PObj ''C'' []) demo_field PNone []
       = (Inl (Raise (UserError ''ValidationError'') ''must not be None'' [PNone]),
          [''validator''])
   \<and> pipe [validate demo_callables, convert demo_callables] (PObj ''C'' []) demo_field PNone []
       = (Inl (Raise (UserError ''ValidationError'') ''must not be None'' [PNone]),
          [''validator''])
   \<and> validators demo_callables 0 (PObj ''C'' []) demo_field (PStr ''yes'') []
       = (Inr (), [''validator''])
   \<and> pipe [validate demo_callables, convert demo_callables] (PObj ''C'' []) demo_field
         (PStr ''yes'') []
       = (Inr (PBool True), [''validator'', ''converter''])
   \<and> validator (converting_field ''x'') = None
   \<and> pipe [validate demo_callables, convert demo_callables] (PObj ''C'' [])
         (converting_field ''x'') (PStr ''no'') []
       = (Inr (PBool False), [''converter''])"
proof -
  let ?I = "PObj ''C'' []"
  let ?T = demo_callables
  have y: "to_bool (PStr ''yes'') = Inr (PBool True)" by code_simp
  have v1: "validator demo_field = Some 0
      \<and> validators ?T 0 ?I demo_field PNone []
          = (Inl (Raise (UserError ''ValidationError'') ''must not be None'' [PNone]), [''validator''])"
    by (simp add: demo_callables_def demo_field_def not_none_def)
  have v2: "validator demo_field = Some 0
      \<and> validators ?T 0 ?I demo_field (PStr ''yes'') [] = (Inr (), [''validator''])"
    by (simp add: demo_callables_def demo_field_def not_none_def)
  have c: "convert ?T ?I demo_field (PStr ''yes'') [''validator'']
      = (Inr (PBool True), [''validator'', ''converter''])"
    by (simp add: convert_def demo_callables_def demo_field_def to_bool_logged_def y)
  have r1: "pipe [validate ?T, convert ?T] ?I demo_field PNone []
     = (Inl (Raise (UserError ''ValidationError'') ''must not be None'' [PNone]), [''validator''])"
    using v1 pipe_in_declaration_order [where inst = "?I" and attrib = demo_field
        and v = PNone and s = "[]" and tbl = "?T"]
    by blast
  have "pipe [validate ?T, convert ?T] ?I demo_field (PStr ''yes'') []
     = convert ?T ?I demo_field (PStr ''yes'') [''validator'']"
    using v2 pipe_in_declaration_order [where inst = "?I" and attrib = demo_field
        and v = "PStr ''yes''" and s = "[]" and tbl = "?T"]
    by blast
  then have r2: "pipe [validate ?T, convert ?T] ?I demo_field (PStr ''yes'') []
     = (Inr (PBool True), [''validator'', ''converter''])"
    by (simp only: c)
  have n: "to_bool (PStr ''no'') = Inr (PBool False)" by code_simp
  have v3: "validator (converting_field ''x'') = None"
    by (simp add: converting_field_def)
  have c3: "convert ?T ?I (converting_field ''x'') (PStr ''no'') []
      = (Inr (PBool False), [''converter''])"
    by (simp add: convert_def demo_callables_def converting_field_def to_bool_logged_def n)
  have "pipe [validate ?T, convert ?T] ?I (converting_field ''x'') (PStr ''no'') []
     = convert ?T ?I (converting_field ''x'') (PStr ''no'') []"
    using v3 pipe_in_declaration_order [where inst = "?I" and attrib = "converting_field ''x''"
        and v = "PStr ''no''" and s = "[]" and tbl = "?T"]
    by blast
  then have r3: "pipe [validate ?T, convert ?T] ?I (converting_field ''x'') (PStr ''no'') []
     = (Inr (PBool False), [''converter''])"
    by (simp only: c3)
  from v1 v2 v3 r1 r2 r3 show ?thesis by blast
qed

section \<open>Properties of evolve\<close>

lemma hasattr_iff: "hasattr inst nm \<longleftrightarrow> (\<exists>v. getattr inst nm = Inr v)"
  by (cases "getattr inst nm") (simp_all add: hasattr_def)

lemma filter_absent_key:
  "map_of d k = None \<Longrightarrow> filter (\<lambda>(k', v'). k' \<noteq> k) d = d"
  by (induction d) (auto split: if_splits)

lemma map_of_filter_other:
  "m \<noteq> k \<Longrightarrow> map_of (filter (\<lambda>(k', v'). k' \<noteq> k) d) m = map_of d m"
  by (induction d) auto

lemma dict_pop_eq:
  "dict_pop d k dflt =
     (case map_of d k of Some v \<Rightarrow> v | None \<Rightarrow> dflt, filter (\<lambda>(k', v'). k' \<noteq> k) d)"
  by (simp add: dict_pop_def filter_absent_key split: option.splits)

lemma dict_setitem_new:
  "k \<notin> fst ` set d \<Longrightarrow> dict_setitem d k v = d @ [(k, v)]"
  by (simp add: dict_setitem_def)

lemma merged_value_filter:
  "m \<noteq> k \<Longrightarrow>
     merged_value inst (filter (\<lambda>(k', v'). k' \<noteq> k) changes) m = merged_value inst changes m"
  by (simp add: merged_value_def map_of_filter_other)

lemma merged_arguments_filter:
  assumes "k \<notin> name ` set attrs"
  shows "merged_arguments inst attrs (filter (\<lambda>(k', v'). k' \<noteq> k) changes)
       = merged_arguments inst attrs changes"
proof -
  have "merged_value inst (filter (\<lambda>(k', v'). k' \<noteq> k) changes) (name x)
      = merged_value inst changes (name x)" if "x \<in> set attrs" for x
  proof -
    from that assms have "name x \<noteq> k" by auto
    then show ?thesis by (rule merged_value_filter)
  qed
  then show ?thesis by (simp add: merged_arguments_def)
qed

lemma evolve_loop_result:
  assumes "\<forall>a \<in> set attrs. \<exists>v. getattr inst (name a) = Inr v"
    and "distinct (map name attrs)"
    and "fst ` set nv \<inter> name ` set attrs = {}"
  shows "evolve_loop inst attrs nv changes =
           Inr (nv @ merged_arguments inst attrs changes,
                filter (\<lambda>(k, v). k \<notin> name ` set (filter init attrs)) changes)"
  using assms
proof (induction attrs arbitrary: nv changes)
  case Nil
  then show ?case by (simp add: merged_arguments_def)
next
  case (Cons a attrs)
  from Cons.prems(1) obtain d where d: "getattr inst (name a) = Inr d" by auto
  show ?case
  proof (cases "init a")
    case False
    have "evolve_loop inst attrs nv changes =
           Inr (nv @ merged_arguments inst attrs changes,
                filter (\<lambda>(k, v). k \<notin> name ` set (filter init attrs)) changes)"
      using Cons.prems by (intro Cons.IH) auto
    with False show ?thesis by (simp add: merged_arguments_def)
  next
    case True
    let ?v = "merged_value inst changes (name a)"
    let ?ch = "filter (\<lambda>(k', v'). k' \<noteq> name a) changes"
    have pop: "dict_pop changes (name a) d = (?v, ?ch)"
      by (simp add: dict_pop_eq merged_value_def d split: option.splits)
    have fresh: "name a \<notin> fst ` set nv" using Cons.prems(3) by auto
    have notin: "name a \<notin> name ` set attrs" using Cons.prems(2) by auto
    have ih: "evolve_loop inst attrs (nv @ [(name a, ?v)]) ?ch =
           Inr ((nv @ [(name a, ?v)]) @ merged_arguments inst attrs ?ch,
                filter (\<lambda>(k, v). k \<notin> name ` set (filter init attrs)) ?ch)"
      using Cons.prems notin by (intro Cons.IH) auto
    have flt: "filter (\<lambda>(k, v). k \<notin> name ` set (filter init attrs)) ?ch
        = filter (\<lambda>(k, v). k \<notin> name ` set (filter init (a # attrs))) changes"
      using True by (induction changes) auto
    have "evolve_loop inst (a # attrs) nv changes
        = evolve_loop inst attrs (nv @ [(name a, ?v)]) ?ch"
      using True by (simp add: d pop dict_setitem_new [OF fresh])
    also note ih
    also have "(nv @ [(name a, ?v)]) @ merged_arguments inst attrs ?ch
        = nv @ merged_arguments inst (a # attrs) changes"
      unfolding merged_arguments_filter [OF notin]
      using True by (simp add: merged_arguments_def)
    finally show ?thesis unfolding flt .
  qed
qed

lemma leftover_keys:
  "map fst (filter (\<lambda>(k, v). k \<notin> S) changes) = filter (\<lambda>k. k \<notin> S) (map fst changes)"
  by (induction changes) auto

lemma record_instance_class:
  assumes "record_instance reg inst attrs"
  shows "\<exists>cn. py_class inst = T_class cn \<and> attrs_attrs reg cn = Some attrs"
  using assms
  by (auto simp: record_instance_def fields_def split: pytype.splits option.splits)

lemma evolve_record:
  assumes "record_instance reg inst attrs"
  shows "evolve reg (inst # rest) changes =
     (case unexpected_keys attrs changes of
        [] \<Rightarrow> construct reg (type_name (py_class inst)) (merged_arguments inst attrs changes)
      | k # _ \<Rightarrow>
          Inl (Raise TypeError ''got an unexpected keyword argument: {next(iter(changes))!r}''
                 [PStr k]))"
proof -
  from record_instance_class [OF assms] obtain cn
    where cn: "py_class inst = T_class cn" "attrs_attrs reg cn = Some attrs" by auto
  have h: "has reg (py_class inst)" by (simp add: has_def cn)
  have f: "fields reg (py_class inst) = Inr attrs" using assms by (simp add: record_instance_def)
  have l: "evolve_loop inst attrs [] changes =
           Inr ([] @ merged_arguments inst attrs changes,
                filter (\<lambda>(k, v). k \<notin> name ` set (filter init attrs)) changes)"
    using assms
    by (intro evolve_loop_result) (auto simp: record_instance_def hasattr_iff)
  have u: "unexpected_keys attrs changes
      = map fst (filter (\<lambda>(k, v). k \<notin> name ` set (filter init attrs)) changes)"
    by (simp add: unexpected_keys_def leftover_keys)
  show ?thesis
    unfolding evolve_def u
    by (simp add: h f l split: list.splits prod.splits)
qed

lemma merged_value_changed:
  "distinct (map fst changes) \<Longrightarrow> (k, v) \<in> set changes \<Longrightarrow> merged_value inst changes k = v"
  by (simp add: merged_value_def)

lemma merged_value_unchanged:
  "k \<notin> fst ` set changes \<Longrightarrow> getattr inst k = Inr v \<Longrightarrow> merged_value inst changes k = v"
  by (simp add: merged_value_def map_of_eq_None_iff [THEN iffD2])

lemma merged_arguments_zip:
  assumes "keywords_are_names attrs"
  shows "merged_arguments inst attrs changes
       = zip (map init_keyword (filter init attrs))
             (map (\<lambda>a. merged_value inst changes (name a)) (filter init attrs))"
  using assms by (induction attrs) (simp_all add: merged_arguments_def keywords_are_names_def)

lemma zip_map_member: "a \<in> set xs \<Longrightarrow> (a, f a) \<in> set (zip xs (map f xs))"
  by (induction xs) auto

lemma demo_fields_Point:
  "fields demo_registry (T_class ''Point'')
     = Inr [plain_field ''x'' True, plain_field ''y'' True, plain_field ''z'' False]"
  by (simp add: fields_def demo_registry_def demo_classes_def)

lemma point_record_instance:
  "record_instance demo_registry (point 1 2)
     [plain_field ''x'' True, plain_field ''y'' True, plain_field ''z'' False]"
  by (simp add: record_instance_def point_def demo_fields_Point plain_field_def getattr_def
      hasattr_def)

lemma Point_keywords:
  "keywords_are_names [plain_field ''x'' True, plain_field ''y'' True, plain_field ''z'' False]"
  by (simp add: keywords_are_names_def plain_field_def init_keyword_def)

lemma Point_construct:
  "construct demo_registry ''Point'' [(''x'', u), (''y'', v)]
     = Inr (PObj ''Point'' [(''x'', u), (''y'', v), (''z'', PNone)])"
  by (simp add: demo_registry_def demo_classes_def generated_init_def plain_field_def
      init_keyword_def)

lemma Point_stores_arguments:
  "stores_arguments demo_registry ''Point''
     [plain_field ''x'' True, plain_field ''y'' True, plain_field ''z'' False]"
proof -
  have f: "filter init [plain_field ''x'' True, plain_field ''y'' True, plain_field ''z'' False]
      = [plain_field ''x'' True, plain_field ''y'' True]"
    by (simp add: plain_field_def)
  have k: "map init_keyword [plain_field ''x'' True, plain_field ''y'' True] = [''x'', ''y'']"
    by (simp add: plain_field_def init_keyword_def)
  show ?thesis
    unfolding stores_arguments_def f k
    by (auto simp: length_Suc_conv Point_construct getattr_def plain_field_def)
qed

text \<open>
  The loop of \<open>evolve\<close> keys the arguments by \<open>attr.name\<close>.  The initializer of a field
  with an alias takes the field under the alias: \<open>evolve\<close> on an instance of \<open>Private\<close>
  fails, even with no change at all.  The statement of C3 below leaves such fields
  out.
\<close>

lemma evolve_private_field_alias:
  "evolve demo_registry [PObj ''Private'' [(''_x'', PInt 1)]] []
     = Inl (Raise TypeError ''__init__() got an unexpected keyword argument {!r}''
              [PStr ''_x''])"
  by code_simp

text \<open>
  C3, as the claim states it, fails for a record type whose initializer converts: the
  field \<open>x\<close> of \<open>Flags\<close> is declared with \<open>converter=to_bool\<close>, and evolving with
  \<open>x="yes"\<close> gives an instance whose \<open>x\<close> is True, not the supplied value.
\<close>

theorem evolve_converts_changed_field:
  "evolve demo_registry [PObj ''Flags'' [(''x'', PBool False), (''y'', PBool False)]]
       [(''x'', PStr ''yes'')]
     = Inr (PObj ''Flags'' [(''x'', PBool True), (''y'', PBool False)])
   \<and> getattr (PObj ''Flags'' [(''x'', PBool True), (''y'', PBool False)]) ''x''
     \<noteq> Inr (PStr ''yes'')"
  by code_simp

text \<open>
  C3, amended.  For a record instance (each field has a value) whose init-eligible
  fields the initializer takes under their own names, and a change set with distinct
  names: when every name denotes an init-eligible field, \<open>evolve\<close> returns what the
  initializer of the instance's own class returns for the keyword arguments that bind,
  in declared order, each init-eligible field to the supplied value if the change set
  names it and to the source instance's value otherwise; when that initializer stores
  the values it is given (it has no converter and no validator that rejects), the
  result is a new instance of the same class in which each changed field equals the
  supplied value and every other init-eligible field equals the source's.  When some
  name denotes no init-eligible field, \<open>evolve\<close> raises a TypeError naming the first such
  name in the caller's order.
\<close>

theorem evolve_merges_changes:
  assumes "record_instance reg inst attrs" and "distinct (map fst changes)"
    and "keywords_are_names attrs"
  shows "(unexpected_keys attrs changes = [] \<longrightarrow>
            evolve reg (inst # rest) changes
              = construct reg (type_name (py_class inst)) (merged_arguments inst attrs changes))
       \<and> (unexpected_keys attrs changes = []
            \<and> stores_arguments reg (type_name (py_class inst)) attrs
            \<longrightarrow> (\<exists>new. evolve reg (inst # rest) changes = Inr new
                  \<and> py_class new = py_class inst
                  \<and> (\<forall>(k, v) \<in> set changes. getattr new k = Inr v)
                  \<and> (\<forall>a \<in> set attrs. init a \<and> name a \<notin> fst ` set changes
                        \<longrightarrow> getattr new (name a) = getattr inst (name a))))
       \<and> (unexpected_keys attrs changes \<noteq> [] \<longrightarrow>
            evolve reg (inst # rest) changes
              = Inl (Raise TypeError
                       ''got an unexpected keyword argument: {next(iter(changes))!r}''
                       [PStr (hd (unexpected_keys attrs changes))]))"
proof -
  note ev = evolve_record [OF assms(1), of rest changes]
  from record_instance_class [OF assms(1)] obtain cn
    where cn: "py_class inst = T_class cn" by auto
  let ?F = "filter init attrs"
  let ?mv = "\<lambda>a. merged_value inst changes (name a)"
  let ?kw = "merged_arguments inst attrs changes"
  have kw: "?kw = zip (map init_keyword ?F) (map ?mv ?F)"
    by (rule merged_arguments_zip [OF assms(3)])
  have stored: "\<exists>new. evolve reg (inst # rest) changes = Inr new
                  \<and> py_class new = py_class inst
                  \<and> (\<forall>(k, v) \<in> set changes. getattr new k = Inr v)
                  \<and> (\<forall>a \<in> set attrs. init a \<and> name a \<notin> fst ` set changes
                        \<longrightarrow> getattr new (name a) = getattr inst (name a))"
    if none: "unexpected_keys attrs changes = []"
      and st: "stores_arguments reg (type_name (py_class inst)) attrs"
  proof -
    have "length (map ?mv ?F) = length ?F" by simp
    with st obtain new
      where new: "construct reg cn (zip (map init_keyword ?F) (map ?mv ?F)) = Inr new"
        "py_class new = T_class cn"
        "\<forall>(a, v) \<in> set (zip ?F (map ?mv ?F)). getattr new (name a) = Inr v"
      unfolding stores_arguments_def cn type_name.simps by blast
    have field: "getattr new (name a) = Inr (merged_value inst changes (name a))"
      if "a \<in> set attrs" "init a" for a
    proof -
      from that have "a \<in> set ?F" by simp
      then have "(a, ?mv a) \<in> set (zip ?F (map ?mv ?F))" by (rule zip_map_member)
      with new(3) show ?thesis by auto
    qed
    have changed: "getattr new k = Inr v" if kv: "(k, v) \<in> set changes" for k v
    proof -
      from none kv have "k \<in> name ` set (filter init attrs)"
        by (force simp: unexpected_keys_def filter_empty_conv)
      then obtain a where a: "a \<in> set attrs" "init a" "name a = k" by auto
      with field [of a] merged_value_changed [OF assms(2) kv, of inst] show ?thesis by simp
    qed
    have kept: "getattr new (name a) = getattr inst (name a)"
      if "a \<in> set attrs" "init a" "name a \<notin> fst ` set changes" for a
    proof -
      from assms(1) that(1) obtain v where v: "getattr inst (name a) = Inr v"
        by (auto simp: record_instance_def hasattr_iff)
      with field [OF that(1,2)] merged_value_unchanged [OF that(3) v] show ?thesis by simp
    qed
    from none have "evolve reg (inst # rest) changes = Inr new"
      by (simp add: ev cn kw new(1))
    with new(2) changed kept show ?thesis by (auto simp: cn)
  qed
  have bad: "evolve reg (inst # rest) changes
              = Inl (Raise TypeError
                       ''got an unexpected keyword argument: {next(iter(changes))!r}''
                       [PStr (hd (unexpected_keys attrs changes))])"
    if "unexpected_keys attrs changes \<noteq> []"
    using that by (cases "unexpected_keys attrs changes") (simp_all add: ev)
  have good: "evolve reg (inst # rest) changes
              = construct reg (type_name (py_class inst)) ?kw"
    if "unexpected_keys attrs changes = []"
    using that by (simp add: ev)
  from good stored bad show ?thesis by blast
qed

theorem evolve_merges_changes_witness:
  "record_instance demo_registry (point 1 2)
     [plain_field ''x'' True, plain_field ''y'' True, plain_field ''z'' False]
   \<and> keywords_are_names
         [plain_field ''x'' True, plain_field ''y'' True, plain_field ''z'' False]
   \<and> stores_arguments demo_registry ''Point''
         [plain_field ''x'' True, plain_field ''y'' True, plain_field ''z'' False]
   \<and> unexpected_keys [plain_field ''x'' True, plain_field ''y'' True, plain_field ''z'' False]
         [(''x'', PInt 5)] = []
   \<and> evolve demo_registry [point 1 2] [(''x'', PInt 5)] = Inr (point 5 2)
   \<and> (\<exists>new. evolve demo_registry [point 1 2] [(''x'', PInt 5)] = Inr new
          \<and> py_class new = T_class ''Point''
          \<and> getattr new ''x'' = Inr (PInt 5) \<and> getattr new ''y'' = Inr (PInt 2))
   \<and> unexpected_keys [plain_field ''x'' True, plain_field ''y'' True, plain_field ''z'' False]
         [(''y'', PInt 7), (''z'', PInt 9), (''w'', PInt 0)] = [''z'', ''w'']
   \<and> evolve demo_registry [point 1 2] [(''y'', PInt 7), (''z'', PInt 9), (''w'', PInt 0)]
       = Inl (Raise TypeError ''got an unexpected keyword argument: {next(iter(changes))!r}''
                [PStr ''z''])"
proof -
  let ?A = "[plain_field ''x'' True, plain_field ''y'' True, plain_field ''z'' False]"
  have u1: "unexpected_keys ?A [(''x'', PInt 5)] = []"
    by (simp add: unexpected_keys_def plain_field_def)
  have u2: "unexpected_keys ?A [(''y'', PInt 7), (''z'', PInt 9), (''w'', PInt 0)] = [''z'', ''w'']"
    by (simp add: unexpected_keys_def plain_field_def)
  have m: "merged_arguments (point 1 2) ?A [(''x'', PInt 5)] = [(''x'', PInt 5), (''y'', PInt 2)]"
    by (simp add: merged_arguments_def merged_value_def plain_field_def point_def getattr_def)
  have c: "construct demo_registry ''Point'' [(''x'', PInt 5), (''y'', PInt 2)] = Inr (point 5 2)"
    by (simp add: Point_construct point_def)
  have t: "type_name (py_class (point 1 2)) = ''Point''" by (simp add: point_def)
  have p: "py_class (point 1 2) = T_class ''Point''" by (simp add: point_def)
  have gy: "getattr (point 1 2) ''y'' = Inr (PInt 2)" by (simp add: point_def getattr_def)
  have d1: "distinct (map fst [(''x'', PInt 5)])" by simp
  have d2: "distinct (map fst [(''y'', PInt 7), (''z'', PInt 9), (''w'', PInt 0)])" by simp
  note w1 = evolve_merges_changes [OF point_record_instance d1 Point_keywords, of "[]"]
  note w2 = evolve_merges_changes [OF point_record_instance d2 Point_keywords, of "[]"]
  have e1: "evolve demo_registry [point 1 2] [(''x'', PInt 5)] = Inr (point 5 2)"
    using w1 by (simp add: u1 m c t)
  from w1 u1 Point_stores_arguments obtain new
    where new: "evolve demo_registry [point 1 2] [(''x'', PInt 5)] = Inr new"
      "py_class new = py_class (point 1 2)"
      "\<forall>(k, v) \<in> set [(''x'', PInt 5)]. getattr new k = Inr v"
      "\<forall>a \<in> set ?A. init a \<and> name a \<notin> fst ` set [(''x'', PInt 5)]
          \<longrightarrow> getattr new (name a) = getattr (point 1 2) (name a)"
    unfolding t by blast
  from new(3) have nx: "getattr new ''x'' = Inr (PInt 5)" by simp
  from new(4) have ny: "getattr new ''y'' = Inr (PInt 2)"
    by (simp add: plain_field_def gy)
  have e2: "evolve demo_registry [point 1 2] [(''y'', PInt 7), (''z'', PInt 9), (''w'', PInt 0)]
       = Inl (Raise TypeError ''got an unexpected keyword argument: {next(iter(changes))!r}''
                [PStr ''z''])"
    using w2 by (simp add: u2)
  from new(1,2) nx ny p have "\<exists>new. evolve demo_registry [point 1 2] [(''x'', PInt 5)] = Inr new
          \<and> py_class new = T_class ''Point''
          \<and> getattr new ''x'' = Inr (PInt 5) \<and> getattr new ''y'' = Inr (PInt 2)"
    by auto
  with point_record_instance Point_keywords Point_stores_arguments u1 u2 e1 e2
  show ?thesis by blast
qed

lemma evolve_not_attrs:
  "\<not> has reg (py_class inst) \<Longrightarrow>
     evolve reg (inst # rest) changes = Inl (name_error ''NotAnAttrsClassError'')"
  by (simp add: evolve_def load_global_def funcs_module_names_def)

text \<open>
  C9.  The claim: \<open>evolve\<close> on an instance whose type is not a record type fails with the
  not-a-record-type error.  The code reads the name \<open>NotAnAttrsClassError\<close>, which the
  module \<open>_funcs\<close> neither imports nor defines: \<open>evolve(42)\<close> raises NameError.
\<close>

theorem evolve_not_attrs_NameError:
  "evolve demo_registry [PInt 42] []
     = Inl (Raise NameError ''name {!r} is not defined'' [PStr ''NotAnAttrsClassError''])
   \<and> evolve demo_registry [PInt 42] []
     \<noteq> Inl (Raise NotAnAttrsClassError
              ''{inst.__class__.__name__} is not an attrs-decorated class.'' [PStr ''int''])"
  by code_simp

section \<open>Properties of asdict and astuple\<close>

lemma astuple_anything_unbound: "''_astuple_anything'' \<notin> set funcs_module_names"
  by (simp add: funcs_module_names_def)

lemma Box_fields: "fields demo_registry (T_class ''Box'') = Inr [plain_field ''x'' True]"
  by (simp add: fields_def demo_registry_def demo_classes_def)

text \<open>Whatever dict the field holds, \<open>asdict\<close> stores it as it is.\<close>

lemma asdict_dict_field_unprojected:
  "asdict (Suc n) demo_registry (box (PDict d)) True None (py_dict demo_registry) retain None
     = Some (Inr (PDict [(PStr ''x'', PDict d)]))"
  by (simp add: box_def Box_fields obind_def py_dict_def getattr_def plain_field_def has_def
      setitem_def dict_setitem_def)

text \<open>Whatever container the field holds, \<open>astuple\<close> raises NameError.\<close>

lemma astuple_container_field_NameError:
  "isinstance_collection_or_dict v \<Longrightarrow>
     astuple (Suc n) demo_registry (box v) True None tuple_factory retain
       = Some (Inl (name_error ''_astuple_anything''))"
  by (cases v)
     (simp_all add: box_def Box_fields obind_def getattr_def plain_field_def has_def
       isinstance_collection_or_dict_def)

text \<open>
  C1.  The claim: with \<open>recurse=True\<close>, \<open>asdict\<close> and \<open>astuple\<close> replace every field value
  that is a mapping, sequence, set or frozenset by its container-aware projection.
  \<open>asdict\<close> tests a field value for tuple, list, set and frozenset only: the field
  \<open>x = {"a": (1, 2)}\<close> is stored as it is, although \<open>_asdict_anything\<close> projects this
  dict to \<open>{"a": [1, 2]}\<close>.  \<open>astuple\<close> calls \<open>_astuple_anything\<close>, which the module does
  not define: the field \<open>x = [1, 2]\<close> raises NameError.
\<close>

theorem projection_skips_dict_field_and_astuple_fails:
  "asdict 5 demo_registry (box (PDict [(PStr ''a'', PTuple [PInt 1, PInt 2])])) True None
       (py_dict demo_registry) False None
     = Some (Inr (PDict [(PStr ''x'', PDict [(PStr ''a'', PTuple [PInt 1, PInt 2])])]))
   \<and> asdict_anything 5 demo_registry (PDict [(PStr ''a'', PTuple [PInt 1, PInt 2])]) True None
       (py_dict demo_registry) False None
     = Some (Inr (PDict [(PStr ''a'', PList [PInt 1, PInt 2])]))
   \<and> astuple 5 demo_registry (box (PList [PInt 1, PInt 2])) True None py_tuple False
     = Some (Inl (Raise NameError ''name {!r} is not defined'' [PStr ''_astuple_anything'']))"
  by code_simp

text \<open>
  C5.  The claim: projecting a record that contains a mapping with a collection as a
  key does not fail.  \<open>_asdict_anything\<close> projects the key like any other value: with
  \<open>retain_collection_types=False\<close> the key \<open>(1, 2)\<close> becomes the list \<open>[1, 2]\<close>, and
  \<open>dict\<close> raises TypeError for the unhashable key.  The input is
  \<open>asdict(Box(x=[{(1, 2): 3}]))\<close>.
\<close>

theorem asdict_collection_key_unhashable:
  "asdict 5 demo_registry (box (PList [PDict [(PTuple [PInt 1, PInt 2], PInt 3)]])) True None
       (py_dict demo_registry) False None
     = Some (Inl (Raise TypeError ''unhashable type: {type.__name__!r}'' [PStr ''list'']))"
  by code_simp

end
